theory Spec2Isabelle
  imports Main
begin

section \<open>Password-reset tokens of app.py: strings\<close>

text \<open>
  Python's \<open>str\<close> is modelled by \<open>string\<close>, one \<open>char\<close> per code point, which
  covers the code points 0 to 255 (Latin-1). On that range \<open>str.isspace\<close>,
  \<open>str.strip\<close> and the pattern class \<open>\s\<close> agree on the twelve code points below,
  and \<open>str.lower\<close> adds 32 to A-Z and to the accented capitals 192-222 other than the
  multiplication sign 215.
\<close>

definition isspace :: "char \<Rightarrow> bool" where
  "isspace c = ((of_char c :: nat) \<in> set [9, 10, 11, 12, 13, 28, 29, 30, 31, 32, 133, 160])"

definition lower_char :: "char \<Rightarrow> char" where
  "lower_char c =
     (let n = (of_char c :: nat)
      in if (65 \<le> n \<and> n \<le> 90) \<or> (192 \<le> n \<and> n \<le> 222 \<and> n \<noteq> 215)
         then char_of (n + 32) else c)"

definition lower :: "string \<Rightarrow> string" where
  "lower s = map lower_char s"

definition lstrip :: "string \<Rightarrow> string" where
  "lstrip s = dropWhile isspace s"

definition rstrip :: "string \<Rightarrow> string" where
  "rstrip s = rev (dropWhile isspace (rev s))"

definition strip :: "string \<Rightarrow> string" where
  "strip s = rstrip (lstrip s)"

text \<open>\<open>s.rstrip(chars)\<close>: drops the trailing characters that occur in \<open>chars\<close>.\<close>

definition rstrip_chars :: "string \<Rightarrow> string \<Rightarrow> string" where
  "rstrip_chars chars s = rev (dropWhile (\<lambda>c. c \<in> set chars) (rev s))"

text \<open>Truthiness of an optional string: \<open>None\<close> and the empty string are falsy.\<close>

fun truthy :: "string option \<Rightarrow> bool" where
  "truthy None = False"
| "truthy (Some s) = (s \<noteq> [])"

section \<open>The email pattern\<close>

text \<open>
  \<open>EMAIL_RE = re.compile(r"[^@\s]+@[^@\s]+\.[^@\s]+")\<close> is a sequence of five items, each a
  character class taken once or one-or-more times. \<open>re_match\<close> is \<open>Pattern.match\<close>
  reduced to "is not None": the match starts at the first character, a one-or-more item
  first tries to take more and backtracks to taking less, and the pattern's end may be
  reached anywhere in the text.
\<close>

datatype cls = NotAtSpace | Lit char

datatype quant = One | OneOrMore

type_synonym pattern = "(cls \<times> quant) list"

fun cls_accepts :: "cls \<Rightarrow> char \<Rightarrow> bool" where
  "cls_accepts NotAtSpace c = (c \<noteq> CHR ''@'' \<and> \<not> isspace c)"
| "cls_accepts (Lit l) c = (c = l)"

fun re_match :: "pattern \<Rightarrow> string \<Rightarrow> bool" where
  "re_match [] s = True"
| "re_match ((k, q) # p) [] = False"
| "re_match ((k, One) # p) (c # cs) = (cls_accepts k c \<and> re_match p cs)"
| "re_match ((k, OneOrMore) # p) (c # cs) =
     (cls_accepts k c \<and> (re_match ((k, OneOrMore) # p) cs \<or> re_match p cs))"

definition EMAIL_RE :: pattern where
  "EMAIL_RE = [(NotAtSpace, OneOrMore), (Lit (CHR ''@''), One), (NotAtSpace, OneOrMore),
               (Lit (CHR ''.''), One), (NotAtSpace, OneOrMore)]"

definition valid_email :: "string \<Rightarrow> bool" where
  "valid_email email = re_match EMAIL_RE email"

section \<open>Configuration\<close>

text \<open>
  The module reads its settings from the process environment once, at import. The two
  numeric variables are converted by \<open>int(...)\<close>: the environment record holds the
  integer that conversion gives when the variable is set, and the defaults \<open>"60"\<close> and
  \<open>"587"\<close> stand as 60 and 587.
\<close>

record environ =
  env_BOT_TOKEN :: "string option"
  env_FRONTEND_BASE :: "string option"
  env_RESET_PATH :: "string option"
  env_RESET_EXPIRY_MINUTES :: "int option"
  env_SMTP_HOST :: "string option"
  env_SMTP_PORT :: "int option"
  env_SMTP_USER :: "string option"
  env_SMTP_PASS :: "string option"
  env_FROM_EMAIL :: "string option"
  env_DATABASE_URL :: "string option"

record config =
  BOT_TOKEN :: "string option"
  FRONTEND_BASE :: string
  RESET_PATH :: string
  RESET_EXPIRY_MINUTES :: int
  SMTP_HOST :: "string option"
  SMTP_PORT :: int
  SMTP_USER :: "string option"
  SMTP_PASS :: "string option"
  FROM_EMAIL :: "string option"
  DATABASE_URL :: "string option"

text \<open>\<open>os.environ.get(name, default)\<close> and \<open>request.args.get(name, default)\<close>.\<close>

fun get_default :: "string option \<Rightarrow> string \<Rightarrow> string" where
  "get_default None d = d"
| "get_default (Some v) d = v"

definition load_config :: "environ \<Rightarrow> config" where
  "load_config env =
     \<lparr> BOT_TOKEN = env_BOT_TOKEN env,
       FRONTEND_BASE = get_default (env_FRONTEND_BASE env) ''http://localhost:8000'',
       RESET_PATH = get_default (env_RESET_PATH env) ''/reset'',
       RESET_EXPIRY_MINUTES = (case env_RESET_EXPIRY_MINUTES env of None \<Rightarrow> 60 | Some m \<Rightarrow> m),
       SMTP_HOST = env_SMTP_HOST env,
       SMTP_PORT = (case env_SMTP_PORT env of None \<Rightarrow> 587 | Some p \<Rightarrow> p),
       SMTP_USER = env_SMTP_USER env,
       SMTP_PASS = env_SMTP_PASS env,
       FROM_EMAIL = (case env_FROM_EMAIL env of None \<Rightarrow> env_SMTP_USER env | Some f \<Rightarrow> Some f),
       DATABASE_URL = env_DATABASE_URL env \<rparr>"

section \<open>Time\<close>

text \<open>
  A naive \<open>datetime\<close> is the number of microseconds since 0001-01-01T00:00:00, from 0 to
  \<open>MAX_DATETIME\<close> (9999-12-31T23:59:59.999999). A \<open>timedelta\<close> is a number of
  microseconds whose whole days lie within 999999999 either way. Both constructors raise
  \<open>OverflowError\<close> outside their range.
\<close>

type_synonym datetime = int

datatype error = OverflowError | IntegrityError | RuntimeError | MessageError | SMTPError

definition MAX_DATETIME :: int where
  "MAX_DATETIME = 315537897599999999"

definition timedelta_minutes :: "int \<Rightarrow> error + int" where
  "timedelta_minutes m =
     (let us = m * 60000000; days = us div 86400000000
      in if days < - 999999999 \<or> 999999999 < days then Inl OverflowError else Inr us)"

definition datetime_add :: "datetime \<Rightarrow> int \<Rightarrow> error + datetime" where
  "datetime_add t d = (if 0 \<le> t + d \<and> t + d \<le> MAX_DATETIME then Inr (t + d) else Inl OverflowError)"

section \<open>The reset_tokens table\<close>

text \<open>
  One row of \<open>reset_tokens\<close>. The surrogate key \<open>id\<close> is assigned by the database and
  read nowhere in app.py; it is left out. The table is the list of its rows in insertion
  order. Beside the rows the database keeps the session calls the program has made, in
  order: a query by token, an added row, a set \<open>used\<close> attribute, a commit.
\<close>

record ResetToken =
  email :: string
  token :: string
  created_at :: datetime
  expires_at :: datetime
  used :: bool

datatype session_call = Query string | Add ResetToken | SetUsed string | Commit

record database =
  rows :: "ResetToken list"
  calls :: "session_call list"

definition log_calls :: "session_call list \<Rightarrow> database \<Rightarrow> database" where
  "log_calls cs db = db\<lparr>calls := calls db @ cs\<rparr>"

text \<open>\<open>.filter(ResetToken.token == token).first()\<close>\<close>

definition first_row :: "string \<Rightarrow> ResetToken list \<Rightarrow> ResetToken option" where
  "first_row tok rs = find (\<lambda>r. token r = tok) rs"

text \<open>
  \<open>create_token\<close>: \<open>tok\<close> is what \<open>secrets.token_urlsafe(32)\<close> returned and \<open>now\<close> what
  \<open>datetime.utcnow()\<close> returned. The column \<open>token\<close> is unique: the commit of a row whose
  token is already in the table raises and writes nothing.
\<close>

definition create_token ::
  "config \<Rightarrow> database \<Rightarrow> datetime \<Rightarrow> string \<Rightarrow> string \<Rightarrow> (error + string) \<times> database" where
  "create_token cfg db now tok email_arg =
     (case timedelta_minutes (RESET_EXPIRY_MINUTES cfg) of
        Inl e \<Rightarrow> (Inl e, db)
      | Inr delta \<Rightarrow>
          (case datetime_add now delta of
             Inl e \<Rightarrow> (Inl e, db)
           | Inr expires \<Rightarrow>
               (let r = \<lparr> email = strip (lower email_arg), token = tok, created_at = now,
                          expires_at = expires, used = False \<rparr>;
                    db1 = log_calls [Add r, Commit] db
                in if tok \<in> set (map token (rows db)) then (Inl IntegrityError, db1)
                   else (Inr tok, db1\<lparr>rows := rows db @ [r]\<rparr>))))"

definition get_token_row :: "database \<Rightarrow> string \<Rightarrow> ResetToken option \<times> database" where
  "get_token_row db tok = (first_row tok (rows db), log_calls [Query tok] db)"

text \<open>Sets \<open>used\<close> on the first row that carries the token, as \<open>row.used = True\<close> does.\<close>

fun set_used_first :: "string \<Rightarrow> ResetToken list \<Rightarrow> ResetToken list" where
  "set_used_first tok [] = []"
| "set_used_first tok (r # rs) =
     (if token r = tok then r\<lparr>used := True\<rparr> # rs else r # set_used_first tok rs)"

definition mark_used :: "database \<Rightarrow> string \<Rightarrow> database" where
  "mark_used db tok =
     (case first_row tok (rows db) of
        None \<Rightarrow> log_calls [Query tok] db
      | Some row \<Rightarrow> (log_calls [Query tok, SetUsed tok, Commit] db)
                      \<lparr>rows := set_used_first tok (rows db)\<rparr>)"

section \<open>The email helper\<close>

record EmailMessage =
  Subject :: string
  From :: string
  To :: string
  content :: string

text \<open>
  What the mail libraries do is given from outside: whether composing the message
  raises, and whether the relay refuses the connection, STARTTLS, the login or the
  message, or answers the closing QUIT of the \<open>with\<close> block badly, which raises after the
  message has gone. The SMTP calls the program makes are recorded in order.
\<close>

record mail_env =
  compose_raises :: bool
  connect_raises :: bool
  starttls_raises :: bool
  login_raises :: bool
  send_raises :: bool
  quit_raises :: bool

datatype smtp_call = Connect string int | StartTLS | Login string string | SendMessage EmailMessage

fun str_nat :: "nat \<Rightarrow> string" where
  "str_nat n = (if n < 10 then [''0123456789'' ! n]
                else str_nat (n div 10) @ [''0123456789'' ! (n mod 10)])"

definition str_int :: "int \<Rightarrow> string" where
  "str_int i = (if i < 0 then CHR ''-'' # str_nat (nat (- i)) else str_nat (nat i))"

definition reset_link :: "config \<Rightarrow> string \<Rightarrow> string" where
  "reset_link cfg tok = rstrip_chars ''/'' (FRONTEND_BASE cfg) @ RESET_PATH cfg @ ''?token='' @ tok"

definition reset_message :: "config \<Rightarrow> string \<Rightarrow> string \<Rightarrow> EmailMessage" where
  "reset_message cfg to_email tok =
     \<lparr> Subject = ''Password reset request'',
       From = (if truthy (FROM_EMAIL cfg) then the (FROM_EMAIL cfg) else ''no-reply@example.com''),
       To = to_email,
       content = ''\<newline>Hello,\<newline>\<newline>A password reset was requested for this account. If you requested it, open the link below to reset your password:\<newline>\<newline>''
         @ reset_link cfg tok
         @ ''\<newline>\<newline>If you didn't request this, ignore this email.\<newline>This link expires in ''
         @ str_int (RESET_EXPIRY_MINUTES cfg) @ '' minutes.\<newline>'' \<rparr>"

definition send_reset_email ::
  "config \<Rightarrow> mail_env \<Rightarrow> string \<Rightarrow> string \<Rightarrow> (error + unit) \<times> smtp_call list" where
  "send_reset_email cfg env to_email tok =
     (let msg = reset_message cfg to_email tok
      in if compose_raises env then (Inl MessageError, [])
         else if \<not> truthy (SMTP_HOST cfg) \<or> \<not> truthy (FROM_EMAIL cfg) then (Inl RuntimeError, [])
         else
           (let c0 = [Connect (the (SMTP_HOST cfg)) (SMTP_PORT cfg)]
            in if connect_raises env then (Inl SMTPError, c0)
               else
                 (let c1 = c0 @ [StartTLS]
                  in if truthy (SMTP_USER cfg) \<and> truthy (SMTP_PASS cfg)
                     then
                       (let c2 = c1 @ [Login (the (SMTP_USER cfg)) (the (SMTP_PASS cfg))]
                        in if login_raises env then (Inl SMTPError, c2)
                           else if send_raises env then (Inl SMTPError, c2 @ [SendMessage msg])
                           else if quit_raises env then (Inl SMTPError, c2 @ [SendMessage msg])
                           else (Inr (), c2 @ [SendMessage msg]))
                     else if send_raises env then (Inl SMTPError, c1 @ [SendMessage msg])
                     else if quit_raises env then (Inl SMTPError, c1 @ [SendMessage msg])
                     else (Inr (), c1 @ [SendMessage msg]))))"

section \<open>The reset page\<close>

text \<open>
  A response is either the template \<open>HTML_FORM\<close> with its variables \<open>message\<close>,
  \<open>show_form\<close> and \<open>email\<close> (status 200), or a plain body with a status.
\<close>

datatype response =
  Page (message: "string option") (show_form: bool) (form_email: "string option")
  | Plain (body: string) (code: nat)

fun status :: "response \<Rightarrow> nat" where
  "status (Page m f e) = 200"
| "status (Plain b c) = c"

fun renders_form :: "response \<Rightarrow> bool" where
  "renders_form (Page m f e) = f"
| "renders_form (Plain b c) = False"

definition get_reset :: "database \<Rightarrow> datetime \<Rightarrow> string option \<Rightarrow> response \<times> database" where
  "get_reset db now arg_token =
     (let tok = get_default arg_token ''''
      in if tok = [] then (Page (Some ''Missing token.'') False None, db)
         else
           (case get_token_row db tok of
              (None, db1) \<Rightarrow> (Page (Some ''Invalid token.'') False None, db1)
            | (Some row, db1) \<Rightarrow>
                if used row then (Page (Some ''This link has already been used.'') False None, db1)
                else if expires_at row < now then (Page (Some ''This link has expired.'') False None, db1)
                else (Page None True (Some (email row)), db1)))"

definition post_reset ::
  "database \<Rightarrow> datetime \<Rightarrow> string option \<Rightarrow> string option \<Rightarrow> response \<times> database" where
  "post_reset db now arg_token form_password =
     (let tok = get_default arg_token ''''; password = get_default form_password ''''
      in if tok = [] \<or> password = [] then (Plain ''Missing token or password'' 400, db)
         else
           (case get_token_row db tok of
              (None, db1) \<Rightarrow> (Plain ''Invalid or expired token'' 400, db1)
            | (Some row, db1) \<Rightarrow>
                if used row \<or> expires_at row < now then (Plain ''Invalid or expired token'' 400, db1)
                else (Plain ''Password updated (demo). Connect this endpoint to your user DB to actually change passwords.'' 200,
                      mark_used db1 tok)))"

section \<open>The bot's email turn\<close>

definition ASK_EMAIL :: int where
  "ASK_EMAIL = 0"

text \<open>\<open>ConversationHandler.END\<close>\<close>

definition END :: int where
  "END = - 1"

text \<open>
  The outcome of one call of \<open>receive_email\<close>: the state it returns (or the exception
  that escapes it), the texts it replied with, the database and the SMTP calls made.
\<close>

record turn =
  returned :: "error + int"
  replies :: "string list"
  db_after :: database
  smtp_calls :: "smtp_call list"

definition receive_email ::
  "config \<Rightarrow> mail_env \<Rightarrow> database \<Rightarrow> datetime \<Rightarrow> string \<Rightarrow> string \<Rightarrow> turn" where
  "receive_email cfg env db now tok text =
     (let user_text = strip text
      in if \<not> valid_email user_text
         then \<lparr> returned = Inr ASK_EMAIL,
                replies = [''That doesn't look like a valid email. Please try again.''],
                db_after = db, smtp_calls = [] \<rparr>
         else
           (case create_token cfg db now tok user_text of
              (Inl e, db1) \<Rightarrow> \<lparr> returned = Inl e, replies = [], db_after = db1, smtp_calls = [] \<rparr>
            | (Inr tk, db1) \<Rightarrow>
                (case send_reset_email cfg env user_text tk of
                   (Inl e, cs) \<Rightarrow>
                     \<lparr> returned = Inr END,
                       replies = [''Failed to send email. Check SMTP settings in environment variables.''],
                       db_after = db1, smtp_calls = cs \<rparr>
                 | (Inr u, cs) \<Rightarrow>
                     \<lparr> returned = Inr END,
                       replies = [''Reset link sent to '' @ user_text @ ''. Check your email.''],
                       db_after = db1, smtp_calls = cs \<rparr>)))"

section \<open>Runs of the system\<close>

text \<open>
  The requests and messages that reach the program, each with what the clock, the random
  source and the mail libraries give it. A run applies them to the database in order.
\<close>

datatype event =
  GetReset datetime "string option"
  | PostReset datetime "string option" "string option"
  | ReceiveEmail mail_env datetime string string

fun step :: "config \<Rightarrow> database \<Rightarrow> event \<Rightarrow> database" where
  "step cfg db (GetReset now a) = snd (get_reset db now a)"
| "step cfg db (PostReset now a p) = snd (post_reset db now a p)"
| "step cfg db (ReceiveEmail env now tok text) = db_after (receive_email cfg env db now tok text)"

definition run :: "config \<Rightarrow> database \<Rightarrow> event list \<Rightarrow> database" where
  "run cfg db evs = foldl (step cfg) db evs"

text \<open>
  How a table may differ from an earlier one when \<open>used\<close> never goes back: every earlier
  row is still there, at its place, unchanged or with \<open>used\<close> set.
\<close>

definition row_kept :: "ResetToken \<Rightarrow> ResetToken \<Rightarrow> bool" where
  "row_kept r r' = (r' = r \<or> r' = r\<lparr>used := True\<rparr>)"

definition rows_kept :: "ResetToken list \<Rightarrow> ResetToken list \<Rightarrow> bool" where
  "rows_kept rs rs' = (length rs \<le> length rs' \<and> list_all2 row_kept rs (take (length rs) rs'))"


section \<open>Example data\<close>

definition example_cfg :: config where
  "example_cfg = load_config \<lparr> env_BOT_TOKEN = Some ''bot'', env_FRONTEND_BASE = Some ''https://myapp.onrender.com/'',
     env_RESET_PATH = None, env_RESET_EXPIRY_MINUTES = None, env_SMTP_HOST = Some ''smtp.example.com'',
     env_SMTP_PORT = None, env_SMTP_USER = Some ''mailer'', env_SMTP_PASS = Some ''pw'',
     env_FROM_EMAIL = None, env_DATABASE_URL = None \<rparr>"

definition example_row :: ResetToken where
  "example_row = \<lparr> email = ''user@example.com'', token = ''tok123'', created_at = 1000,
                    expires_at = 3600001000, used = False \<rparr>"

definition example_db :: database where
  "example_db = \<lparr> rows = [example_row], calls = [] \<rparr>"

definition relay_ok :: mail_env where
  "relay_ok = \<lparr> compose_raises = False, connect_raises = False, starttls_raises = False,
                 login_raises = False, send_raises = False, quit_raises = False \<rparr>"


definition used_expired_db :: database where
  "used_expired_db = \<lparr> rows = [example_row\<lparr>used := True\<rparr>], calls = [] \<rparr>"

text \<open>Which SMTP calls open a connection, and which hand over a message.\<close>

fun is_connect :: "smtp_call \<Rightarrow> bool" where
  "is_connect (Connect h p) = True"
| "is_connect c = False"

fun is_send :: "smtp_call \<Rightarrow> bool" where
  "is_send (SendMessage m) = True"
| "is_send c = False"

definition relay_rejects :: mail_env where
  "relay_rejects = relay_ok\<lparr>send_raises := True\<rparr>"

definition example_cfg_no_smtp :: config where
  "example_cfg_no_smtp = example_cfg\<lparr>SMTP_HOST := None\<rparr>"

section \<open>Properties of the email pattern\<close>

lemma re_match_append: "re_match p s \<Longrightarrow> re_match p (s @ t)"
  by (induction p s rule: re_match.induct) auto

text \<open>
  Claim C10. \<open>valid_email\<close> applies the pattern with \<open>match\<close>, which does not anchor the
  end: whatever follows an accepted text is accepted too, whitespace included, so
  \<open>a@b.c junk\<close> is accepted.
\<close>

theorem valid_email_accepts_trailing_text:
  "valid_email e \<Longrightarrow> valid_email (e @ junk)"
  unfolding valid_email_def by (rule re_match_append)

theorem valid_email_accepts_trailing_text_witness:
  "valid_email ''a@b.c'' \<and> valid_email ''a@b.c junk'' \<and> list_ex isspace ''a@b.c junk''"
proof -
  have h: "valid_email ''a@b.c''"
    by (simp add: valid_email_def EMAIL_RE_def isspace_def)
  have "valid_email (''a@b.c'' @ '' junk'')"
    using valid_email_accepts_trailing_text [OF h, of "'' junk''"] .
  then show ?thesis using h by (simp add: isspace_def)
qed

section \<open>The table\<close>

lemma rows_log_calls [simp]: "rows (log_calls cs db) = rows db"
  by (simp add: log_calls_def)

lemma calls_log_calls [simp]: "calls (log_calls cs db) = calls db @ cs"
  by (simp add: log_calls_def)

lemma get_token_row_simps [simp]:
  "fst (get_token_row db t) = first_row t (rows db)"
  "rows (snd (get_token_row db t)) = rows db"
  "calls (snd (get_token_row db t)) = calls db @ [Query t]"
  by (simp_all add: get_token_row_def)

lemma rows_get_reset [simp]: "rows (snd (get_reset db now a)) = rows db"
  by (simp add: get_reset_def get_token_row_def Let_def split: option.splits)

lemma first_row_Some: "first_row t rs = Some r \<Longrightarrow> r \<in> set rs \<and> token r = t"
  unfolding first_row_def by (induction rs) (auto split: if_splits)

lemma first_row_None: "(first_row t rs = None) = (t \<notin> set (map token rs))"
  unfolding first_row_def by (induction rs) auto

lemma first_row_distinct:
  "distinct (map token rs) \<Longrightarrow> r \<in> set rs \<Longrightarrow> first_row (token r) rs = Some r"
  unfolding first_row_def by (induction rs) (auto simp: rev_image_eqI)

lemma first_row_append:
  "first_row t (rs @ rs') = (case first_row t rs of None \<Rightarrow> first_row t rs' | Some r \<Rightarrow> Some r)"
  unfolding first_row_def by (induction rs) auto

lemma map_token_set_used_first [simp]: "map token (set_used_first t rs) = map token rs"
  by (induction rs) auto

lemma length_set_used_first [simp]: "length (set_used_first t rs) = length rs"
  by (induction rs) auto

lemma first_row_set_used_first:
  "first_row t' (set_used_first t rs) =
     (if t' = t then map_option (\<lambda>r. r\<lparr>used := True\<rparr>) (first_row t rs) else first_row t' rs)"
  unfolding first_row_def by (induction rs) auto

lemma set_used_first_absent: "first_row t rs = None \<Longrightarrow> set_used_first t rs = rs"
  unfolding first_row_def by (induction rs) (auto split: if_splits)

lemma rows_mark_used: "rows (mark_used db t) = set_used_first t (rows db)"
  by (simp add: mark_used_def set_used_first_absent split: option.splits)

lemma row_kept_refl [simp]: "row_kept r r"
  by (simp add: row_kept_def)


lemma list_all2_row_kept_refl [simp]: "list_all2 row_kept rs rs"
  by (simp add: list_all2_refl)

lemma rows_kept_refl [simp]: "rows_kept rs rs"
  by (simp add: rows_kept_def)

lemma rows_kept_append [simp]: "rows_kept rs (rs @ rs')"
  by (simp add: rows_kept_def)

lemma list_all2_set_used_first: "list_all2 row_kept rs (set_used_first t rs)"
  by (induction rs) (auto simp: row_kept_def list_all2_refl)

lemma rows_kept_set_used_first [simp]: "rows_kept rs (set_used_first t rs)"
  by (simp add: rows_kept_def list_all2_set_used_first)


section \<open>Used tokens stay used\<close>

lemma rows_post_reset:
  "rows (snd (post_reset db now a p)) = rows db \<or>
   rows (snd (post_reset db now a p)) = set_used_first (get_default a '''') (rows db)"
  by (simp add: post_reset_def get_token_row_def Let_def rows_mark_used split: option.splits)

lemma create_token_rows:
  "rows (snd (create_token cfg db now tok e)) = rows db \<or>
   (\<exists>r. token r = tok \<and> tok \<notin> set (map token (rows db)) \<and>
        rows (snd (create_token cfg db now tok e)) = rows db @ [r])"
  by (simp add: create_token_def Let_def split: sum.splits)

lemma receive_email_rows:
  "rows (db_after (receive_email cfg env db now tok text)) = rows db \<or>
   (\<exists>r. token r = tok \<and> tok \<notin> set (map token (rows db)) \<and>
        rows (db_after (receive_email cfg env db now tok text)) = rows db @ [r])"
proof (cases "valid_email (strip text)")
  case False
  then show ?thesis by (simp add: receive_email_def)
next
  case True
  have "db_after (receive_email cfg env db now tok text)
          = snd (create_token cfg db now tok (strip text))"
    using True by (simp add: receive_email_def Let_def split: prod.splits sum.splits)
  then show ?thesis using create_token_rows [of cfg db now tok "strip text"] by simp
qed

lemma step_rows:
  "rows (step cfg db ev) = rows db \<or>
   (\<exists>t. rows (step cfg db ev) = set_used_first t (rows db)) \<or>
   (\<exists>r. token r \<notin> set (map token (rows db)) \<and> rows (step cfg db ev) = rows db @ [r])"
proof (cases ev)
  case (GetReset now a)
  then show ?thesis by simp
next
  case (PostReset now a p)
  then show ?thesis using rows_post_reset [of db now a p] by auto
next
  case (ReceiveEmail env now tok msg)
  then show ?thesis using receive_email_rows [of cfg env db now tok msg] by auto
qed













section \<open>The two handlers of the reset page\<close>

text \<open>
  Claim C3. \<open>get_reset\<close> checks in this order: no row for the token (Invalid token), then
  \<open>used\<close> (already used), then expiry (expired). The second line holds whatever the expiry
  is, so a row that is both used and expired is reported as already used. A GET changes no
  row: the only session call it makes is the one query.
\<close>

theorem get_reset_check_order:
  "(t \<noteq> [] \<and> first_row t (rows db) = None \<longrightarrow>
      fst (get_reset db now (Some t)) = Page (Some ''Invalid token.'') False None)
   \<and> (t \<noteq> [] \<and> first_row t (rows db) = Some r \<and> used r \<longrightarrow>
      fst (get_reset db now (Some t)) = Page (Some ''This link has already been used.'') False None)
   \<and> (t \<noteq> [] \<and> first_row t (rows db) = Some r \<and> \<not> used r \<and> expires_at r < now \<longrightarrow>
      fst (get_reset db now (Some t)) = Page (Some ''This link has expired.'') False None)
   \<and> (t \<noteq> [] \<and> first_row t (rows db) = Some r \<and> \<not> used r \<and> \<not> expires_at r < now \<longrightarrow>
      fst (get_reset db now (Some t)) = Page None True (Some (email r)))
   \<and> rows (snd (get_reset db now a)) = rows db
   \<and> (calls (snd (get_reset db now a)) = calls db
        \<or> calls (snd (get_reset db now a)) = calls db @ [Query (get_default a '''')])"
  by (simp add: get_reset_def get_token_row_def Let_def split: option.splits)

theorem get_reset_check_order_witness:
  "first_row ''tok123'' (rows used_expired_db) = Some (example_row\<lparr>used := True\<rparr>)
   \<and> used (example_row\<lparr>used := True\<rparr>)
   \<and> expires_at (example_row\<lparr>used := True\<rparr>) < 9999999999
   \<and> fst (get_reset used_expired_db 9999999999 (Some ''tok123''))
        = Page (Some ''This link has already been used.'') False None
   \<and> first_row ''nosuch'' (rows used_expired_db) = None
   \<and> fst (get_reset used_expired_db 9999999999 (Some ''nosuch''))
        = Page (Some ''Invalid token.'') False None
   \<and> rows (snd (get_reset used_expired_db 9999999999 (Some ''tok123''))) = rows used_expired_db"
proof -
  have h: "''tok123'' \<noteq> [] \<and> first_row ''tok123'' (rows used_expired_db) = Some (example_row\<lparr>used := True\<rparr>)
           \<and> used (example_row\<lparr>used := True\<rparr>)"
    by (simp add: first_row_def used_expired_db_def example_row_def)
  have e: "expires_at (example_row\<lparr>used := True\<rparr>) < 9999999999"
    by (simp add: example_row_def)
  have n: "''nosuch'' \<noteq> [] \<and> first_row ''nosuch'' (rows used_expired_db) = None"
    by (simp add: first_row_def used_expired_db_def example_row_def)
  from get_reset_check_order [of "''tok123''" used_expired_db 9999999999 "example_row\<lparr>used := True\<rparr>" "Some ''tok123''"]
       get_reset_check_order [of "''nosuch''" used_expired_db 9999999999 "example_row" "Some ''tok123''"]
       h e n
  show ?thesis by blast
qed

text \<open>
  Claim C4. Whenever a GET for the token would not render the form (missing token, no row,
  used, expired), a POST with that token answers 400 and leaves the rows as they are; the
  only session call it may make is the query, so \<open>mark_used\<close> is not called.
\<close>

theorem post_reset_rejects_without_mutation:
  assumes "\<not> renders_form (fst (get_reset db now a))"
  shows "status (fst (post_reset db now a p)) = 400
         \<and> rows (snd (post_reset db now a p)) = rows db
         \<and> (calls (snd (post_reset db now a p)) = calls db
              \<or> calls (snd (post_reset db now a p)) = calls db @ [Query (get_default a '''')])"
  using assms
  by (auto simp: get_reset_def post_reset_def get_token_row_def Let_def split: option.splits if_splits)

theorem post_reset_rejects_without_mutation_witness:
  "\<not> renders_form (fst (get_reset used_expired_db 2000 (Some ''tok123'')))
   \<and> status (fst (post_reset used_expired_db 2000 (Some ''tok123'') (Some ''secret1''))) = 400
   \<and> rows (snd (post_reset used_expired_db 2000 (Some ''tok123'') (Some ''secret1''))) = rows used_expired_db"
proof -
  have h: "\<not> renders_form (fst (get_reset used_expired_db 2000 (Some ''tok123'')))"
    by code_simp
  show ?thesis
    using h post_reset_rejects_without_mutation [OF h, of "Some ''secret1''"] by blast
qed

text \<open>
  Claim C8. A POST whose token parameter or password field is absent or empty answers 400
  and returns the database as it was, session calls included: no lookup is made.
\<close>

theorem post_reset_missing_fields:
  assumes "\<not> truthy a \<or> \<not> truthy p"
  shows "post_reset db now a p = (Plain ''Missing token or password'' 400, db)"
  using assms by (cases a; cases p) (auto simp: post_reset_def)

theorem post_reset_missing_fields_witness:
  "\<not> truthy (Some '''')
   \<and> \<not> truthy None
   \<and> post_reset example_db 2000 (Some ''tok123'') (Some '''')
       = (Plain ''Missing token or password'' 400, example_db)
   \<and> post_reset example_db 2000 None (Some ''secret1'')
       = (Plain ''Missing token or password'' 400, example_db)"
proof -
  have h: "\<not> truthy (Some ''tok123'') \<or> \<not> truthy (Some '''')" by simp
  have g: "\<not> truthy None \<or> \<not> truthy (Some ''secret1'')" by simp
  show ?thesis
    using post_reset_missing_fields [OF h, of example_db 2000]
          post_reset_missing_fields [OF g, of example_db 2000] by simp
qed

section \<open>Issuing a token\<close>

lemma lower_char_idem: "lower_char (lower_char c) = lower_char c"
proof -
  have r: "of_char c < (256::nat)" by simp
  show ?thesis
    using r by (auto simp: lower_char_def Let_def)
qed

lemma lower_idem: "lower (lower s) = lower s"
  by (simp add: lower_def lower_char_idem)

lemma rstrip_take: "rstrip s = take (length s - length (takeWhile isspace (rev s))) s"
  by (simp add: rstrip_def dropWhile_eq_drop drop_rev)

lemma lstrip_drop: "lstrip s = drop (length (takeWhile isspace s)) s"
  by (simp add: lstrip_def dropWhile_eq_drop)

lemma strip_take_drop: "\<exists>k m. strip s = take m (drop k s)"
  unfolding strip_def by (subst rstrip_take, subst (2) lstrip_drop) blast

lemma lower_strip_lower: "lower (strip (lower e)) = strip (lower e)"
proof -
  obtain k m where s: "strip (lower e) = take m (drop k (lower e))"
    using strip_take_drop by blast
  have "lower (take m (drop k (lower e))) = take m (drop k (lower (lower e)))"
    by (simp add: lower_def take_map drop_map)
  then show ?thesis using s by (simp add: lower_idem)
qed

lemma rstrip_idem: "rstrip (rstrip s) = rstrip s"
  by (simp add: rstrip_def)

lemma lstrip_rstrip_lstrip: "lstrip (rstrip (lstrip s)) = rstrip (lstrip s)"
proof (cases "rstrip (lstrip s)")
  case Nil
  then show ?thesis by (simp add: lstrip_def)
next
  case (Cons c cs)
  let ?x = "lstrip s"
  have tk: "rstrip ?x = take (length ?x - length (takeWhile isspace (rev ?x))) ?x"
    by (rule rstrip_take)
  with Cons have ne: "?x \<noteq> []" by auto
  from tk Cons have "c = hd ?x"
    by (metis hd_take list.sel(1) take_eq_Nil list.distinct(1) neq0_conv)
  moreover have "\<not> isspace (hd ?x)"
    using ne unfolding lstrip_def by (rule hd_dropWhile)
  ultimately show ?thesis using Cons by (simp add: lstrip_def)
qed

lemma strip_idem: "strip (strip s) = strip s"
  by (simp add: strip_def lstrip_rstrip_lstrip rstrip_idem)

lemma timedelta_minutes_Inr: "timedelta_minutes m = Inr d \<Longrightarrow> d = m * 60000000"
  by (auto simp: timedelta_minutes_def Let_def split: if_splits)

lemma datetime_add_Inr: "datetime_add t d = Inr x \<Longrightarrow> x = t + d"
  by (auto simp: datetime_add_def split: if_splits)

lemma create_token_Inr:
  assumes "create_token cfg db now tok e = (Inr t, db1)"
  shows "t = tok \<and> tok \<notin> set (map token (rows db))
         \<and> db1 = (log_calls [Add \<lparr> email = strip (lower e), token = tok, created_at = now,
                                   expires_at = now + RESET_EXPIRY_MINUTES cfg * 60000000, used = False \<rparr>,
                              Commit] db)
                  \<lparr>rows := rows db @ [\<lparr> email = strip (lower e), token = tok, created_at = now,
                                        expires_at = now + RESET_EXPIRY_MINUTES cfg * 60000000,
                                        used = False \<rparr>]\<rparr>"
  using assms
  by (auto simp: create_token_def Let_def split: sum.splits if_splits
           dest!: timedelta_minutes_Inr datetime_add_Inr)

lemma create_token_Inl:
  "create_token cfg db now tok e = (Inl err, db1) \<Longrightarrow> rows db1 = rows db"
  by (auto simp: create_token_def Let_def split: sum.splits if_splits)

text \<open>
  Claim C7. When \<open>create_token\<close> returns, the table has gained exactly one row: its email
  is the argument lower-cased and stripped (a text that lower-casing and stripping leave
  as it is), \<open>used\<close> is false, \<open>expires_at\<close> is \<open>created_at\<close> plus the configured minutes,
  and its token is the string returned. When it raises, no row is written. With the
  variable \<open>RESET_EXPIRY_MINUTES\<close> unset the window is 60 minutes.
\<close>

theorem create_token_postconditions:
  "(create_token cfg db now tok e = (Inr t, db1) \<longrightarrow>
      (\<exists>r. rows db1 = rows db @ [r]
          \<and> email r = strip (lower e) \<and> lower (email r) = email r \<and> strip (email r) = email r
          \<and> \<not> used r \<and> created_at r = now
          \<and> expires_at r = created_at r + RESET_EXPIRY_MINUTES cfg * 60000000
          \<and> token r = t))
   \<and> (create_token cfg db now tok e = (Inl err, db1) \<longrightarrow> rows db1 = rows db)
   \<and> RESET_EXPIRY_MINUTES (load_config (env\<lparr>env_RESET_EXPIRY_MINUTES := None\<rparr>)) = 60"
proof -
  have "create_token cfg db now tok e = (Inr t, db1) \<Longrightarrow>
      (\<exists>r. rows db1 = rows db @ [r]
          \<and> email r = strip (lower e) \<and> lower (email r) = email r \<and> strip (email r) = email r
          \<and> \<not> used r \<and> created_at r = now
          \<and> expires_at r = created_at r + RESET_EXPIRY_MINUTES cfg * 60000000
          \<and> token r = t)"
    by (drule create_token_Inr) (simp add: lower_strip_lower strip_idem)
  then show ?thesis
    using create_token_Inl [of cfg db now tok e err db1] by (simp add: load_config_def)
qed

theorem create_token_postconditions_witness:
  "create_token example_cfg example_db 3000 ''tok456'' ''  Bob@Example.com ''
     = (Inr ''tok456'', snd (create_token example_cfg example_db 3000 ''tok456'' ''  Bob@Example.com ''))
   \<and> last (rows (snd (create_token example_cfg example_db 3000 ''tok456'' ''  Bob@Example.com '')))
       = \<lparr> email = ''bob@example.com'', token = ''tok456'', created_at = 3000,
           expires_at = 3600003000, used = False \<rparr>
   \<and> create_token example_cfg example_db 3000 ''tok123'' ''bob@example.com''
     = (Inl IntegrityError, snd (create_token example_cfg example_db 3000 ''tok123'' ''bob@example.com''))
   \<and> rows (snd (create_token example_cfg example_db 3000 ''tok123'' ''bob@example.com'')) = rows example_db"
proof -
  let ?db1 = "snd (create_token example_cfg example_db 3000 ''tok456'' ''  Bob@Example.com '')"
  let ?db2 = "snd (create_token example_cfg example_db 3000 ''tok123'' ''bob@example.com'')"
  have "fst (create_token example_cfg example_db 3000 ''tok456'' ''  Bob@Example.com '') = Inr ''tok456''"
    by code_simp
  then have h: "create_token example_cfg example_db 3000 ''tok456'' ''  Bob@Example.com '' = (Inr ''tok456'', ?db1)"
    by (metis prod.collapse)
  have "fst (create_token example_cfg example_db 3000 ''tok123'' ''bob@example.com'') = Inl IntegrityError"
    by code_simp
  then have g: "create_token example_cfg example_db 3000 ''tok123'' ''bob@example.com'' = (Inl IntegrityError, ?db2)"
    by (metis prod.collapse)
  have n: "strip (lower ''  Bob@Example.com '') = ''bob@example.com''"
    by code_simp
  have m: "RESET_EXPIRY_MINUTES example_cfg = 60"
    by (simp add: example_cfg_def load_config_def)
  from create_token_postconditions [of example_cfg example_db 3000 "''tok456''" "''  Bob@Example.com ''" "''tok456''" ?db1] h
  obtain r where r: "rows ?db1 = rows example_db @ [r]" "email r = strip (lower ''  Bob@Example.com '')"
      "\<not> used r" "created_at r = 3000"
      "expires_at r = created_at r + RESET_EXPIRY_MINUTES example_cfg * 60000000" "token r = ''tok456''"
    by blast
  have "r = \<lparr> email = ''bob@example.com'', token = ''tok456'', created_at = 3000,
              expires_at = 3600003000, used = False \<rparr>"
    using r n m by (cases r) simp
  moreover have "last (rows ?db1) = r" using r(1) by simp
  moreover have "rows ?db2 = rows example_db"
    using create_token_postconditions [of example_cfg example_db 3000 "''tok123''" "''bob@example.com''" _ ?db2 IntegrityError] g
    by blast
  ultimately show ?thesis using h g by simp
qed

text \<open>
  Claim C5. The token string \<open>create_token\<close> returns for an email (any email, the
  syntactically valid ones among them) is classified valid by a GET made no later than
  its expiry, with no redemption in between: the form is rendered, bound to the stored
  email, which is the argument lower-cased and stripped. \<open>secrets.token_urlsafe(32)\<close>
  never returns the empty string, which is the second premise.
\<close>

theorem issue_then_evaluate_valid:
  assumes "create_token cfg db now tok e = (Inr t, db1)"
    and "t \<noteq> []"
    and "now' \<le> now + RESET_EXPIRY_MINUTES cfg * 60000000"
  shows "fst (get_reset db1 now' (Some t)) = Page None True (Some (strip (lower e)))"
proof -
  let ?r = "\<lparr> email = strip (lower e), token = tok, created_at = now,
              expires_at = now + RESET_EXPIRY_MINUTES cfg * 60000000, used = False \<rparr>"
  from create_token_Inr [OF assms(1)]
  have t: "t = tok" and fresh: "tok \<notin> set (map token (rows db))"
    and rows: "rows db1 = rows db @ [?r]"
    by simp_all
  have "first_row tok (rows db) = None"
    using fresh by (simp add: first_row_None)
  then have "first_row tok (rows db1) = Some ?r"
    by (simp add: rows first_row_append) (simp add: first_row_def)
  then show ?thesis
    using assms(2,3) t by (simp add: get_reset_def get_token_row_def)
qed

theorem issue_then_evaluate_valid_witness:
  "valid_email ''Bob@Example.com''
   \<and> create_token example_cfg example_db 3000 ''tok456'' ''Bob@Example.com''
     = (Inr ''tok456'', snd (create_token example_cfg example_db 3000 ''tok456'' ''Bob@Example.com''))
   \<and> ''tok456'' \<noteq> []
   \<and> (3000::int) \<le> 3000 + RESET_EXPIRY_MINUTES example_cfg * 60000000
   \<and> fst (get_reset (snd (create_token example_cfg example_db 3000 ''tok456'' ''Bob@Example.com'')) 3000
            (Some ''tok456''))
       = Page None True (Some ''bob@example.com'')"
proof -
  let ?db1 = "snd (create_token example_cfg example_db 3000 ''tok456'' ''Bob@Example.com'')"
  have v: "valid_email ''Bob@Example.com''"
    by code_simp
  have "fst (create_token example_cfg example_db 3000 ''tok456'' ''Bob@Example.com'') = Inr ''tok456''"
    by code_simp
  then have h: "create_token example_cfg example_db 3000 ''tok456'' ''Bob@Example.com'' = (Inr ''tok456'', ?db1)"
    by (metis prod.collapse)
  have ne: "''tok456'' \<noteq> []" by simp
  have le: "(3000::int) \<le> 3000 + RESET_EXPIRY_MINUTES example_cfg * 60000000"
    by (simp add: example_cfg_def load_config_def)
  have n: "strip (lower ''Bob@Example.com'') = ''bob@example.com''"
    by code_simp
  show ?thesis
    using issue_then_evaluate_valid [OF h ne le] v h le n by simp
qed

section \<open>Where the email is validated\<close>

text \<open>
  Claim C6, as stated, fails: \<open>create_token\<close> makes no check of its argument and writes a
  row for a text the pattern rejects.
\<close>

theorem create_token_no_validation_counterexample:
  "\<not> valid_email ''not-an-email''
   \<and> create_token example_cfg example_db 3000 ''tok456'' ''not-an-email''
       = (Inr ''tok456'',
          \<lparr> rows = rows example_db @ [\<lparr> email = ''not-an-email'', token = ''tok456'', created_at = 3000,
                                         expires_at = 3600003000, used = False \<rparr>],
            calls = [Add \<lparr> email = ''not-an-email'', token = ''tok456'', created_at = 3000,
                            expires_at = 3600003000, used = False \<rparr>, Commit] \<rparr>)"
  by code_simp

lemma create_token_outcome_any_email:
  "fst (create_token cfg db now tok e) = fst (create_token cfg db now tok e')"
  by (simp add: create_token_def Let_def split: sum.splits)

text \<open>
  Claim C6, amended. The check is made by the caller: \<open>receive_email\<close> strips the message
  text and tests it with \<open>valid_email\<close> before it calls \<open>create_token\<close>. For a text that
  fails, it replies with the re-prompt, returns \<open>ASK_EMAIL\<close> and leaves the database as it
  was, so no row is created; for a text that passes, the database is the one
  \<open>create_token\<close> leaves. Whether \<open>create_token\<close> itself returns or raises does not depend
  on its email argument.
\<close>

theorem receive_email_validates_before_issue:
  "(\<not> valid_email (strip msg) \<longrightarrow>
      receive_email cfg env db now tok msg
        = \<lparr> returned = Inr ASK_EMAIL,
            replies = [''That doesn't look like a valid email. Please try again.''],
            db_after = db, smtp_calls = [] \<rparr>)
   \<and> (valid_email (strip msg) \<longrightarrow>
      db_after (receive_email cfg env db now tok msg) = snd (create_token cfg db now tok (strip msg)))
   \<and> fst (create_token cfg db now tok e) = fst (create_token cfg db now tok e')"
  by (simp add: receive_email_def Let_def create_token_outcome_any_email [of cfg db now tok e e']
           split: prod.splits sum.splits)

theorem receive_email_validates_before_issue_witness:
  "\<not> valid_email (strip ''not-an-email'')
   \<and> receive_email example_cfg relay_ok example_db 3000 ''tok456'' ''not-an-email''
        = \<lparr> returned = Inr ASK_EMAIL,
            replies = [''That doesn't look like a valid email. Please try again.''],
            db_after = example_db, smtp_calls = [] \<rparr>
   \<and> valid_email (strip '' bob@example.com '')
   \<and> db_after (receive_email example_cfg relay_ok example_db 3000 ''tok456'' '' bob@example.com '')
        = snd (create_token example_cfg example_db 3000 ''tok456'' (strip '' bob@example.com ''))"
proof -
  have h: "\<not> valid_email (strip ''not-an-email'')" by code_simp
  have g: "valid_email (strip '' bob@example.com '')" by code_simp
  show ?thesis
    using h g
      receive_email_validates_before_issue [of "''not-an-email''" example_cfg relay_ok example_db 3000 "''tok456''"]
      receive_email_validates_before_issue [of "'' bob@example.com ''" example_cfg relay_ok example_db 3000 "''tok456''"]
    by blast
qed

section \<open>When a token is redeemable\<close>

lemma step_distinct:
  "distinct (map token (rows db)) \<Longrightarrow> distinct (map token (rows (step cfg db ev)))"
  using step_rows [of cfg db ev] by auto

lemma run_distinct:
  "distinct (map token (rows db)) \<Longrightarrow> distinct (map token (rows (run cfg db evs)))"
  unfolding run_def by (induction evs arbitrary: db) (auto intro: step_distinct)

text \<open>
  Claim C2, as stated, fails at the instant of expiry: both handlers reject only when
  \<open>expires_at < now\<close>, so with the clock equal to \<open>expires_at\<close> an unused token still gets
  the form and is still redeemed.
\<close>

theorem redeemable_at_expiry_counterexample:
  "\<not> used example_row
   \<and> \<not> (3600001000 < expires_at example_row)
   \<and> fst (get_reset example_db 3600001000 (Some ''tok123''))
       = Page None True (Some ''user@example.com'')
   \<and> status (fst (post_reset example_db 3600001000 (Some ''tok123'') (Some ''secret1''))) = 200
   \<and> rows (snd (post_reset example_db 3600001000 (Some ''tok123'') (Some ''secret1'')))
       = [example_row\<lparr>used := True\<rparr>]"
  by code_simp

text \<open>
  Claim C2, amended. For a row of a table whose tokens are distinct (the column is unique)
  and non-empty, the token is redeemable if and only if \<open>used\<close> is false and the clock is
  not past \<open>expires_at\<close> (\<open>now \<le> expires_at\<close>): exactly then a GET renders the form for the
  row's email, and exactly then a POST with a non-empty password answers 200 and sets
  \<open>used\<close> on that row. Otherwise the GET shows no form, the POST answers 400 and the rows
  stay as they are.
\<close>

theorem redeemable_iff_unused_and_not_past_expiry:
  assumes "r \<in> set (rows db)"
    and "distinct (map token (rows db))"
    and "token r \<noteq> []"
    and "p \<noteq> []"
  shows "((fst (get_reset db now (Some (token r))) = Page None True (Some (email r)))
            = (\<not> used r \<and> now \<le> expires_at r))
         \<and> (renders_form (fst (get_reset db now (Some (token r)))) = (\<not> used r \<and> now \<le> expires_at r))
         \<and> ((status (fst (post_reset db now (Some (token r)) (Some p))) = 200)
            = (\<not> used r \<and> now \<le> expires_at r))
         \<and> ((status (fst (post_reset db now (Some (token r)) (Some p))) = 400)
            = (\<not> (\<not> used r \<and> now \<le> expires_at r)))
         \<and> (\<not> used r \<and> now \<le> expires_at r \<longrightarrow>
              first_row (token r) (rows (snd (post_reset db now (Some (token r)) (Some p))))
                = Some (r\<lparr>used := True\<rparr>))
         \<and> (\<not> (\<not> used r \<and> now \<le> expires_at r) \<longrightarrow>
              rows (snd (post_reset db now (Some (token r)) (Some p))) = rows db)"
proof -
  have f: "first_row (token r) (rows db) = Some r"
    using assms(1,2) by (simp add: first_row_distinct)
  show ?thesis
    using f assms(3,4)
    by (auto simp: get_reset_def post_reset_def get_token_row_def Let_def rows_mark_used
                   first_row_set_used_first)
qed

theorem redeemable_iff_unused_and_not_past_expiry_witness:
  "example_row \<in> set (rows example_db)
   \<and> distinct (map token (rows example_db))
   \<and> token example_row \<noteq> []
   \<and> ''secret1'' \<noteq> []
   \<and> \<not> used example_row \<and> (3600001000::int) \<le> expires_at example_row
   \<and> renders_form (fst (get_reset example_db 3600001000 (Some (token example_row))))
   \<and> status (fst (post_reset example_db 3600001000 (Some (token example_row)) (Some ''secret1''))) = 200
   \<and> first_row (token example_row)
        (rows (snd (post_reset example_db 3600001000 (Some (token example_row)) (Some ''secret1''))))
       = Some (example_row\<lparr>used := True\<rparr>)
   \<and> \<not> (\<not> used example_row \<and> (3600001001::int) \<le> expires_at example_row)
   \<and> \<not> renders_form (fst (get_reset example_db 3600001001 (Some (token example_row))))
   \<and> status (fst (post_reset example_db 3600001001 (Some (token example_row)) (Some ''secret1''))) = 400
   \<and> rows (snd (post_reset example_db 3600001001 (Some (token example_row)) (Some ''secret1'')))
       = rows example_db"
proof -
  have a: "example_row \<in> set (rows example_db)" by (simp add: example_db_def)
  have b: "distinct (map token (rows example_db))" by (simp add: example_db_def)
  have c: "token example_row \<noteq> []" by (simp add: example_row_def)
  have d: "''secret1'' \<noteq> []" by simp
  have e: "\<not> used example_row \<and> (3600001000::int) \<le> expires_at example_row"
    by (simp add: example_row_def)
  have g: "\<not> (\<not> used example_row \<and> (3600001001::int) \<le> expires_at example_row)"
    by (simp add: example_row_def)
  show ?thesis
    using a b c d e g
      redeemable_iff_unused_and_not_past_expiry [OF a b c d, of 3600001000]
      redeemable_iff_unused_and_not_past_expiry [OF a b c d, of 3600001001]
    by blast
qed

section \<open>When the email cannot be delivered\<close>

lemma send_reset_email_fails_iff:
  "(\<exists>err. fst (send_reset_email cfg env to_email t) = Inl err)
     = (compose_raises env \<or> \<not> truthy (SMTP_HOST cfg) \<or> \<not> truthy (FROM_EMAIL cfg)
        \<or> connect_raises env
        \<or> (truthy (SMTP_USER cfg) \<and> truthy (SMTP_PASS cfg) \<and> login_raises env)
        \<or> send_raises env \<or> quit_raises env)"
  by (auto simp: send_reset_email_def Let_def)

lemma send_reset_email_one_attempt:
  "length (filter is_connect (snd (send_reset_email cfg env to_email t))) \<le> 1
   \<and> length (filter is_send (snd (send_reset_email cfg env to_email t))) \<le> 1"
  by (simp add: send_reset_email_def Let_def)

lemma send_reset_email_not_delivered:
  "fst (send_reset_email cfg env to_email t) = Inl err \<Longrightarrow> send_raises env \<or> quit_raises env \<or>
     filter is_send (snd (send_reset_email cfg env to_email t)) = []"
  by (auto simp: send_reset_email_def Let_def split: if_splits)

text \<open>
  Claim C9. When \<open>send_reset_email\<close> raises after \<open>create_token\<close> has returned, whatever the
  cause (the message cannot be composed, SMTP host or sender not configured, the relay
  refusing the connection, the login, the message or the closing QUIT), \<open>receive_email\<close>
  replies once, with
  the failure text, and ends the conversation. It has made the SMTP calls of that one
  attempt and no more: at most one connection, at most one message handed over. The
  database is the one \<open>create_token\<close> left: the new row is there, unused, and up to its
  expiry a GET with the token renders the form and a POST with a non-empty password
  redeems it.
\<close>

theorem delivery_failure_keeps_token:
  assumes "valid_email (strip msg)"
    and "create_token cfg db now tok (strip msg) = (Inr t, db1)"
    and "fst (send_reset_email cfg env (strip msg) t) = Inl err"
    and "t \<noteq> []"
    and "now' \<le> now + RESET_EXPIRY_MINUTES cfg * 60000000"
    and "p \<noteq> []"
  shows "returned (receive_email cfg env db now tok msg) = Inr END
         \<and> replies (receive_email cfg env db now tok msg)
             = [''Failed to send email. Check SMTP settings in environment variables.'']
         \<and> smtp_calls (receive_email cfg env db now tok msg) = snd (send_reset_email cfg env (strip msg) t)
         \<and> length (filter is_connect (smtp_calls (receive_email cfg env db now tok msg))) \<le> 1
         \<and> length (filter is_send (smtp_calls (receive_email cfg env db now tok msg))) \<le> 1
         \<and> db_after (receive_email cfg env db now tok msg) = db1
         \<and> first_row t (rows db1)
             = Some \<lparr> email = strip (lower (strip msg)), token = t, created_at = now,
                      expires_at = now + RESET_EXPIRY_MINUTES cfg * 60000000, used = False \<rparr>
         \<and> fst (get_reset db1 now' (Some t)) = Page None True (Some (strip (lower (strip msg))))
         \<and> status (fst (post_reset db1 now' (Some t) (Some p))) = 200"
proof -
  let ?r = "\<lparr> email = strip (lower (strip msg)), token = tok, created_at = now,
              expires_at = now + RESET_EXPIRY_MINUTES cfg * 60000000, used = False \<rparr>"
  obtain cs where s: "send_reset_email cfg env (strip msg) t = (Inl err, cs)"
    using assms(3) by (cases "send_reset_email cfg env (strip msg) t") auto
  have turn: "receive_email cfg env db now tok msg
      = \<lparr> returned = Inr END,
          replies = [''Failed to send email. Check SMTP settings in environment variables.''],
          db_after = db1, smtp_calls = cs \<rparr>"
    using assms(1,2) s by (simp add: receive_email_def)
  from create_token_Inr [OF assms(2)]
  have t: "t = tok" and fresh: "tok \<notin> set (map token (rows db))"
    and rows: "rows db1 = rows db @ [?r]"
    by simp_all
  have "first_row tok (rows db) = None"
    using fresh by (simp add: first_row_None)
  then have f: "first_row t (rows db1) = Some ?r"
    by (simp add: t rows first_row_append) (simp add: first_row_def)
  have g: "fst (get_reset db1 now' (Some t)) = Page None True (Some (strip (lower (strip msg))))"
    using f assms(4,5) by (simp add: get_reset_def get_token_row_def)
  have po: "status (fst (post_reset db1 now' (Some t) (Some p))) = 200"
    using f assms(4,5,6) by (simp add: post_reset_def get_token_row_def)
  have one: "length (filter is_connect cs) \<le> 1 \<and> length (filter is_send cs) \<le> 1"
    using send_reset_email_one_attempt [of cfg env "strip msg" t] s by simp
  show ?thesis
    using turn s f g po one t by simp
qed

theorem delivery_failure_keeps_token_witness:
  "valid_email (strip '' bob@example.com '')
   \<and> create_token example_cfg example_db 3000 ''tok456'' (strip '' bob@example.com '')
       = (Inr ''tok456'', snd (create_token example_cfg example_db 3000 ''tok456'' (strip '' bob@example.com '')))
   \<and> fst (send_reset_email example_cfg relay_rejects (strip '' bob@example.com '') ''tok456'') = Inl SMTPError
   \<and> ''tok456'' \<noteq> []
   \<and> (4000::int) \<le> 3000 + RESET_EXPIRY_MINUTES example_cfg * 60000000
   \<and> ''hunter22'' \<noteq> []
   \<and> returned (receive_email example_cfg relay_rejects example_db 3000 ''tok456'' '' bob@example.com '') = Inr END
   \<and> replies (receive_email example_cfg relay_rejects example_db 3000 ''tok456'' '' bob@example.com '')
       = [''Failed to send email. Check SMTP settings in environment variables.'']
   \<and> fst (get_reset (snd (create_token example_cfg example_db 3000 ''tok456'' (strip '' bob@example.com '')))
            4000 (Some ''tok456''))
       = Page None True (Some ''bob@example.com'')
   \<and> status (fst (post_reset (snd (create_token example_cfg example_db 3000 ''tok456'' (strip '' bob@example.com '')))
            4000 (Some ''tok456'') (Some ''hunter22''))) = 200
   \<and> fst (send_reset_email example_cfg_no_smtp relay_ok (strip '' bob@example.com '') ''tok456'') = Inl RuntimeError
   \<and> replies (receive_email example_cfg_no_smtp relay_ok example_db 3000 ''tok456'' '' bob@example.com '')
       = [''Failed to send email. Check SMTP settings in environment variables.'']
   \<and> smtp_calls (receive_email example_cfg_no_smtp relay_ok example_db 3000 ''tok456'' '' bob@example.com '') = []"
proof -
  let ?e = "strip '' bob@example.com ''"
  let ?db1 = "snd (create_token example_cfg example_db 3000 ''tok456'' ?e)"
  let ?db2 = "snd (create_token example_cfg_no_smtp example_db 3000 ''tok456'' ?e)"
  have v: "valid_email ?e" by code_simp
  have "fst (create_token example_cfg example_db 3000 ''tok456'' ?e) = Inr ''tok456''"
    by code_simp
  then have c: "create_token example_cfg example_db 3000 ''tok456'' ?e = (Inr ''tok456'', ?db1)"
    by (metis prod.collapse)
  have "fst (create_token example_cfg_no_smtp example_db 3000 ''tok456'' ?e) = Inr ''tok456''"
    by code_simp
  then have c2: "create_token example_cfg_no_smtp example_db 3000 ''tok456'' ?e = (Inr ''tok456'', ?db2)"
    by (metis prod.collapse)
  have s: "fst (send_reset_email example_cfg relay_rejects ?e ''tok456'') = Inl SMTPError"
    by code_simp
  have s2: "fst (send_reset_email example_cfg_no_smtp relay_ok ?e ''tok456'') = Inl RuntimeError"
    by code_simp
  have s3: "snd (send_reset_email example_cfg_no_smtp relay_ok ?e ''tok456'') = []"
    by code_simp
  have ne: "''tok456'' \<noteq> []" by simp
  have le: "(4000::int) \<le> 3000 + RESET_EXPIRY_MINUTES example_cfg * 60000000"
    by (simp add: example_cfg_def load_config_def)
  have le2: "(4000::int) \<le> 3000 + RESET_EXPIRY_MINUTES example_cfg_no_smtp * 60000000"
    by (simp add: example_cfg_no_smtp_def example_cfg_def load_config_def)
  have pw: "''hunter22'' \<noteq> []" by simp
  have n: "strip (lower ?e) = ''bob@example.com''" by code_simp
  show ?thesis
    using delivery_failure_keeps_token [OF v c s ne le pw]
          delivery_failure_keeps_token [OF v c2 s2 ne le2 pw]
          v c s s2 s3 ne le pw n
    by simp
qed

end
